theory Spec2Isabelle
  imports Complex_Main "HOL-Library.Char_ord" "HOL-Library.List_Lexorder"
begin

section \<open>Data model: the citizen table of \<^verbatim>\<open>app.py\<close>\<close>

text \<open>
  The dashboard works on one pandas table. A row is a record with one field per column
  the script touches; a table is the list of the column names that are present (the
  script asks \<^verbatim>\<open>"District" in df.columns\<close>) together with its rows in index order.
  Float columns are read as reals: the properties below compare and select values, they
  never depend on rounding. \<open>Age_Group\<close> is the column that \<^verbatim>\<open>pd.cut\<close> adds later;
  \<open>None\<close> is pandas' NaN there.
\<close>

record citizen =
  Age :: int
  Gender :: string
  District :: string
  Mode_of_Transport :: string
  Carbon_Footprint_kgCO2 :: real
  Steps_Walked :: int
  Sleep_Hours :: real
  Social_Media_Hours :: real
  Public_Transport_Usage :: string
  Recycling_Rate :: real
  Digital_Service_Usage :: int
  Age_Group :: "string option"

record dataframe =
  columns :: "string list"
  rows :: "citizen list"

text \<open>
  The sidebar widgets of lines 133-165: the slider's pair and the three multiselect
  lists. \<open>district_filter\<close> is \<open>None\<close> on the branch of line 157.
\<close>

record filter_criteria =
  age_range :: "int \<times> int"
  gender_filter :: "string list"
  district_filter :: "string list option"
  transport_filter :: "string list"

datatype py_error = FileNotFoundError | ParserError | ValueError

section \<open>Filtering (lines 148-176)\<close>

text \<open>\<^verbatim>\<open>Series.isin(values)\<close>, row by row.\<close>

definition isin :: "'a \<Rightarrow> 'a list \<Rightarrow> bool" where
  "isin x values = (x \<in> set values)"

text \<open>\<^verbatim>\<open>df[mask]\<close>: a new table with the same columns and the rows where the mask holds.\<close>

definition boolean_index :: "dataframe \<Rightarrow> (citizen \<Rightarrow> bool) \<Rightarrow> dataframe" where
  "boolean_index df msk = \<lparr>columns = columns df, rows = filter msk (rows df)\<rparr>"

text \<open>Python's truth value of \<^verbatim>\<open>district_filter\<close>: \<^verbatim>\<open>None\<close> and \<^verbatim>\<open>[]\<close> are false.\<close>

fun truthy :: "string list option \<Rightarrow> bool" where
  "truthy None = False"
| "truthy (Some xs) = (xs \<noteq> [])"

text \<open>Lines 149-157: what the script binds to \<^verbatim>\<open>district_filter\<close> for a widget selection.\<close>

definition sidebar_district_filter :: "dataframe \<Rightarrow> string list \<Rightarrow> string list option" where
  "sidebar_district_filter df selection =
     (if ''District'' \<in> set (columns df) then Some selection
      else if ''District'' \<in> set (columns df)
           then Some (remdups (map District (rows df))) else None)"

text \<open>Lines 168-176, on table values.\<close>

definition apply_filters :: "dataframe \<Rightarrow> filter_criteria \<Rightarrow> dataframe" where
  "apply_filters df c =
     (let filtered_df = boolean_index df
            (\<lambda>r. Age r \<ge> fst (age_range c) \<and>
                 Age r \<le> snd (age_range c) \<and>
                 isin (Gender r) (gender_filter c) \<and>
                 isin (Mode_of_Transport r) (transport_filter c))
      in if truthy (district_filter c) \<and> ''District'' \<in> set (columns df)
         then (case district_filter c of
                 Some ds \<Rightarrow> boolean_index filtered_df (\<lambda>r. isin (District r) ds)
               | None \<Rightarrow> filtered_df)
         else filtered_df)"

text \<open>
  The predicate of the specification, in its words: \<open>age_min \<le> Age \<le> age_max\<close>, gender and
  transport mode among the selected ones, and the district among the selected ones or the
  district selection empty or absent.
\<close>

definition criteria_predicate :: "filter_criteria \<Rightarrow> citizen \<Rightarrow> bool" where
  "criteria_predicate c r =
     (fst (age_range c) \<le> Age r \<and> Age r \<le> snd (age_range c) \<and>
      Gender r \<in> set (gender_filter c) \<and>
      Mode_of_Transport r \<in> set (transport_filter c) \<and>
      (case district_filter c of
         None \<Rightarrow> True
       | Some ds \<Rightarrow> District r \<in> set ds \<or> ds = []))"

text \<open>
  A criteria value fits a table when a district selection is only made for a table that
  has the column; the sidebar never builds another one.
\<close>

definition valid_criteria :: "dataframe \<Rightarrow> filter_criteria \<Rightarrow> bool" where
  "valid_criteria df c =
     (''District'' \<in> set (columns df) \<or> \<not> truthy (district_filter c))"

section \<open>Age groups (lines 344-347 and 483-488)\<close>

text \<open>
  \<^verbatim>\<open>pd.cut(x, bins, labels, right=False)\<close> of pandas, for a list of bin edges. pandas
  finds the bin of a value with \<^verbatim>\<open>bins.searchsorted(x, side="right")\<close>, the number of
  edges that are at most \<open>x\<close> when the edges increase, and turns the positions \<open>0\<close> and
  \<open>len(bins)\<close> into NaN. It raises \<^verbatim>\<open>ValueError\<close> for edges that do not increase
  strictly and for a number of labels other than one fewer than the edges.
\<close>

definition searchsorted_right :: "int list \<Rightarrow> int \<Rightarrow> nat" where
  "searchsorted_right a v = length (takeWhile (\<lambda>b. b \<le> v) a)"

definition bin_label :: "int list \<Rightarrow> string list \<Rightarrow> int \<Rightarrow> string option" where
  "bin_label bins labels x =
     (let ids = searchsorted_right bins x
      in if ids = length bins \<or> ids = 0 then None else Some (labels ! (ids - 1)))"

definition cut :: "int list \<Rightarrow> int list \<Rightarrow> string list \<Rightarrow> py_error + string option list" where
  "cut x bins labels =
     (if \<not> sorted_wrt (<) bins then Inl ValueError
      else if length labels \<noteq> length bins - 1 then Inl ValueError
      else Inr (map (bin_label bins labels) x))"

definition age_bins :: "int list" where
  "age_bins = [18, 25, 35, 45, 55, 65, 75, 100]"

definition age_labels :: "string list" where
  "age_labels = [''18-24'', ''25-34'', ''35-44'', ''45-54'', ''55-64'', ''65-74'', ''75+'']"

text \<open>
  \<^verbatim>\<open>df["Age_Group"] = col\<close> on a table value: the column is appended to the column
  names when it is new, and every row gets its entry. \<open>col\<close> is always computed from the
  same table's \<open>Age\<close> column, so the lengths agree.
\<close>

definition assign_Age_Group :: "dataframe \<Rightarrow> string option list \<Rightarrow> dataframe" where
  "assign_Age_Group df col =
     \<lparr>columns = (if ''Age_Group'' \<in> set (columns df) then columns df
                 else columns df @ [''Age_Group'']),
      rows = map (\<lambda>(r, g). r\<lparr>Age_Group := g\<rparr>) (zip (rows df) col)\<rparr>"

section \<open>Aggregations\<close>

text \<open>
  \<^verbatim>\<open>Series.value_counts().sort_index()\<close> on a categorical column: pandas counts every
  category, also those without a row, leaves NaN out, and \<^verbatim>\<open>sort_index\<close> puts the
  counts in the order of the categories.
\<close>

definition value_counts_sort_index :: "string list \<Rightarrow> string option list \<Rightarrow> (string \<times> nat) list" where
  "value_counts_sort_index categories col =
     map (\<lambda>k. (k, length (filter (\<lambda>v. v = Some k) col))) categories"

text \<open>\<^verbatim>\<open>Series.mean()\<close>: NaN, here \<open>None\<close>, for a series without values.\<close>

definition mean :: "real list \<Rightarrow> real option" where
  "mean xs = (if xs = [] then None else Some (sum_list xs / real (length xs)))"

text \<open>
  \<^verbatim>\<open>df.groupby(key)[val].mean()\<close> for a key column of plain values: one entry per key
  that occurs, in sorted key order; rows whose key is NaN (\<open>None\<close>) are dropped.
\<close>

definition groupby_mean ::
  "('r \<Rightarrow> 'k::linorder option) \<Rightarrow> ('r \<Rightarrow> real) \<Rightarrow> 'r list \<Rightarrow> ('k \<times> real option) list" where
  "groupby_mean key val rs =
     map (\<lambda>k. (k, mean (map val (filter (\<lambda>r. key r = Some k) rs))))
       (sort (remdups (List.map_filter key rs)))"

text \<open>
  The same for a key column of categorical type, as \<^verbatim>\<open>pd.cut\<close> returns it. The
  groups are then taken from the categories: all of them when \<^verbatim>\<open>observed=False\<close>, only
  those with a row when \<^verbatim>\<open>observed=True\<close>. The script does not pass \<^verbatim>\<open>observed\<close>, so
  the default of the installed pandas decides (\<open>False\<close> before pandas 3.0); it is a
  parameter here.
\<close>

definition groupby_categorical_mean ::
  "bool \<Rightarrow> 'k list \<Rightarrow> ('r \<Rightarrow> 'k option) \<Rightarrow> ('r \<Rightarrow> real) \<Rightarrow> 'r list \<Rightarrow> ('k \<times> real option) list" where
  "groupby_categorical_mean observed categories key val rs =
     map (\<lambda>k. (k, mean (map val (filter (\<lambda>r. key r = Some k) rs))))
       (if observed then filter (\<lambda>k. Some k \<in> set (map key rs)) categories else categories)"

text \<open>
  \<^verbatim>\<open>sort_values\<close> on the mean column (line 318): ascending, NaN last. pandas does not
  promise an order among equal means; here they keep their order.
\<close>

definition sort_values :: "('k \<times> real option) list \<Rightarrow> ('k \<times> real option) list" where
  "sort_values t =
     sort_key (\<lambda>(k, v). case v of Some x \<Rightarrow> x | None \<Rightarrow> 0) (filter (\<lambda>(k, v). v \<noteq> None) t)
     @ filter (\<lambda>(k, v). v = None) t"

section \<open>The script on a store of tables\<close>

text \<open>
  pandas tables are objects: \<^verbatim>\<open>df[mask]\<close> and \<^verbatim>\<open>df.copy()\<close> build a new object,
  \<^verbatim>\<open>df["Age_Group"] = ...\<close> changes the object it is applied to. The store is the list
  of the objects made so far; a variable of the script holds an address, the position of
  its object in the store.
\<close>

type_synonym addr = nat
type_synonym heap = "dataframe list"

definition new_object :: "heap \<Rightarrow> dataframe \<Rightarrow> addr \<times> heap" where
  "new_object h d = (length h, h @ [d])"

definition getitem :: "heap \<Rightarrow> addr \<Rightarrow> (citizen \<Rightarrow> bool) \<Rightarrow> addr \<times> heap" where
  "getitem h a msk = new_object h (boolean_index (h ! a) msk)"

definition df_copy :: "heap \<Rightarrow> addr \<Rightarrow> addr \<times> heap" where
  "df_copy h a = new_object h (h ! a)"

definition setitem_Age_Group :: "heap \<Rightarrow> addr \<Rightarrow> string option list \<Rightarrow> heap" where
  "setitem_Age_Group h a col = h[a := assign_Age_Group (h ! a) col]"

text \<open>Lines 168-176 on the store; the result is the address bound to \<^verbatim>\<open>filtered_df\<close>.\<close>

definition sidebar_filters :: "heap \<Rightarrow> addr \<Rightarrow> filter_criteria \<Rightarrow> addr \<times> heap" where
  "sidebar_filters h df c =
     (let (filtered_df, h1) = getitem h df
            (\<lambda>r. Age r \<ge> fst (age_range c) \<and>
                 Age r \<le> snd (age_range c) \<and>
                 isin (Gender r) (gender_filter c) \<and>
                 isin (Mode_of_Transport r) (transport_filter c))
      in if truthy (district_filter c) \<and> ''District'' \<in> set (columns (h1 ! df))
         then (case district_filter c of
                 Some ds \<Rightarrow> getitem h1 filtered_df (\<lambda>r. isin (District r) ds)
               | None \<Rightarrow> (filtered_df, h1))
         else (filtered_df, h1))"

text \<open>Lines 317-318, from the table bound to \<^verbatim>\<open>filtered_df\<close>.\<close>

definition transport_carbon :: "dataframe \<Rightarrow> (string \<times> real option) list" where
  "transport_carbon filtered_df =
     sort_values (groupby_mean (\<lambda>r. Some (Mode_of_Transport r)) Carbon_Footprint_kgCO2
                    (rows filtered_df))"

text \<open>Lines 344-352: the table of EV users per age group, and the store afterwards.\<close>

definition ev_age_distribution :: "heap \<Rightarrow> addr \<Rightarrow> py_error + ((string \<times> nat) list \<times> heap)" where
  "ev_age_distribution h df =
     (let (df_age_group, h1) = df_copy h df
      in case cut (map Age (rows (h1 ! df_age_group))) age_bins age_labels of
           Inl e \<Rightarrow> Inl e
         | Inr col \<Rightarrow>
             (let h2 = setitem_Age_Group h1 df_age_group col;
                  (ev_age_df, h3) = getitem h2 df_age_group (\<lambda>r. Mode_of_Transport r = ''EV'')
              in Inr (value_counts_sort_index age_labels (map Age_Group (rows (h3 ! ev_age_df))),
                      h3)))"

text \<open>
  The same block in the older \<^verbatim>\<open>.ipynb_checkpoints/app-checkpoint.py\<close> (lines 73-76),
  which assigns the column to \<^verbatim>\<open>df\<close> itself instead of a copy.
\<close>

definition ev_age_distribution_checkpoint ::
  "heap \<Rightarrow> addr \<Rightarrow> py_error + ((string \<times> nat) list \<times> heap)" where
  "ev_age_distribution_checkpoint h df =
     (case cut (map Age (rows (h ! df))) age_bins age_labels of
        Inl e \<Rightarrow> Inl e
      | Inr col \<Rightarrow>
          (let h1 = setitem_Age_Group h df col;
               (ev_age_df, h2) = getitem h1 df (\<lambda>r. Mode_of_Transport r = ''EV'')
           in Inr (value_counts_sort_index age_labels (map Age_Group (rows (h2 ! ev_age_df))),
                   h2)))"

text \<open>
  Lines 481-490: mean recycling rate per age group of the filtered table. When the
  table already has an \<open>Age_Group\<close> column (line 482), that column holds plain values.
\<close>

definition recycling_by_age ::
  "bool \<Rightarrow> heap \<Rightarrow> addr \<Rightarrow> py_error + ((string \<times> real option) list \<times> heap)" where
  "recycling_by_age observed h filtered_df =
     (let (df_age_group, h1) = df_copy h filtered_df
      in if ''Age_Group'' \<notin> set (columns (h1 ! df_age_group))
         then (case cut (map Age (rows (h1 ! df_age_group)))
                     [18, 25, 35, 45, 55, 65, 75, 100]
                     [''18-24'', ''25-34'', ''35-44'', ''45-54'', ''55-64'', ''65-74'', ''75+''] of
                 Inl e \<Rightarrow> Inl e
               | Inr col \<Rightarrow>
                   (let h2 = setitem_Age_Group h1 df_age_group col
                    in Inr (groupby_categorical_mean observed
                              [''18-24'', ''25-34'', ''35-44'', ''45-54'', ''55-64'', ''65-74'', ''75+'']
                              Age_Group Recycling_Rate (rows (h2 ! df_age_group)),
                            h2)))
         else Inr (groupby_mean Age_Group Recycling_Rate (rows (h1 ! df_age_group)), h1))"

text \<open>
  What one run of the script computes from the loaded table and the widgets' values:
  the filter of the sidebar, then the tables of tab 2 and tab 3 modelled above.
\<close>

record page =
  page_filtered_df :: addr
  page_transport_carbon :: "(string \<times> real option) list"
  page_ev_age_distribution :: "(string \<times> nat) list"
  page_recycling_by_age :: "(string \<times> real option) list option"

definition dashboard :: "bool \<Rightarrow> heap \<Rightarrow> addr \<Rightarrow> filter_criteria \<Rightarrow> py_error + (page \<times> heap)" where
  "dashboard observed h df c =
     (let (filtered_df, h1) = sidebar_filters h df c;
          tc = transport_carbon (h1 ! filtered_df)
      in case ev_age_distribution h1 df of
           Inl e \<Rightarrow> Inl e
         | Inr (ev, h2) \<Rightarrow>
             if ''Recycling_Rate'' \<in> set (columns (h2 ! filtered_df))
             then (case recycling_by_age observed h2 filtered_df of
                     Inl e \<Rightarrow> Inl e
                   | Inr (rba, h3) \<Rightarrow>
                       Inr (\<lparr>page_filtered_df = filtered_df, page_transport_carbon = tc,
                             page_ev_age_distribution = ev,
                             page_recycling_by_age = Some rba\<rparr>, h3))
             else Inr (\<lparr>page_filtered_df = filtered_df, page_transport_carbon = tc,
                        page_ev_age_distribution = ev, page_recycling_by_age = None\<rparr>, h2))"

section \<open>Loading and mock data (lines 83-115)\<close>

text \<open>
  numpy's global random generator is a library: its samplers are parameters here, each
  a function of the generator's state that returns the drawn array and the next state.
  \<^verbatim>\<open>np.random.seed(k)\<close> replaces the state by one that depends on \<open>k\<close> only.
\<close>

record 's np_random =
  np_seed :: "nat \<Rightarrow> 's"
  np_randint :: "int \<Rightarrow> int \<Rightarrow> nat \<Rightarrow> 's \<Rightarrow> int list \<times> 's"
  np_choice :: "string list \<Rightarrow> nat \<Rightarrow> 's \<Rightarrow> string list \<times> 's"
  np_normal :: "real \<Rightarrow> real \<Rightarrow> nat \<Rightarrow> 's \<Rightarrow> real list \<times> 's"
  np_exponential :: "real \<Rightarrow> nat \<Rightarrow> 's \<Rightarrow> real list \<times> 's"

text \<open>
  What numpy documents of the samplers and the properties below rely on: each returns
  \<open>size\<close> values, \<^verbatim>\<open>randint(low, high)\<close> integers from \<open>low\<close> (inclusive) to \<open>high\<close>
  (exclusive), \<^verbatim>\<open>choice(a)\<close> elements of \<open>a\<close>.
\<close>

definition np_contract :: "'s np_random \<Rightarrow> bool" where
  "np_contract rng =
     (\<forall>n s.
        (\<forall>low high. low < high \<longrightarrow>
           length (fst (np_randint rng low high n s)) = n \<and>
           (\<forall>x \<in> set (fst (np_randint rng low high n s)). low \<le> x \<and> x < high)) \<and>
        (\<forall>a. a \<noteq> [] \<longrightarrow>
           length (fst (np_choice rng a n s)) = n \<and>
           set (fst (np_choice rng a n s)) \<subseteq> set a) \<and>
        (\<forall>loc scale. length (fst (np_normal rng loc scale n s)) = n) \<and>
        (\<forall>scale. length (fst (np_exponential rng scale n s)) = n))"

text \<open>\<^verbatim>\<open>ndarray.clip(a_min, a_max)\<close>, element by element.\<close>

definition clip :: "real \<Rightarrow> real \<Rightarrow> real list \<Rightarrow> real list" where
  "clip a_min a_max xs = map (\<lambda>x. min (max x a_min) a_max) xs"

definition base_columns :: "string list" where
  "base_columns =
     [''Age'', ''Gender'', ''District'', ''Mode_of_Transport'', ''Carbon_Footprint_kgCO2'',
      ''Steps_Walked'', ''Sleep_Hours'', ''Social_Media_Hours'', ''Public_Transport_Usage'',
      ''Recycling_Rate'', ''Digital_Service_Usage'']"

text \<open>
  \<^verbatim>\<open>pd.DataFrame(data)\<close> for the dictionary of line 101: the columns in the order of the
  keys; \<^verbatim>\<open>ValueError\<close> when the arrays differ in length.
\<close>

definition DataFrame ::
  "int list \<Rightarrow> string list \<Rightarrow> string list \<Rightarrow> string list \<Rightarrow> real list \<Rightarrow> int list \<Rightarrow>
   real list \<Rightarrow> real list \<Rightarrow> string list \<Rightarrow> real list \<Rightarrow> int list \<Rightarrow> py_error + dataframe" where
  "DataFrame age gender district mode carbon steps sleep social public recycling digital =
     (let n = length age
      in if length gender = n \<and> length district = n \<and> length mode = n \<and> length carbon = n \<and>
            length steps = n \<and> length sleep = n \<and> length social = n \<and> length public = n \<and>
            length recycling = n \<and> length digital = n
         then Inr \<lparr>columns = base_columns,
                   rows = map (\<lambda>i. \<lparr>Age = age ! i, Gender = gender ! i, District = district ! i,
                                     Mode_of_Transport = mode ! i,
                                     Carbon_Footprint_kgCO2 = carbon ! i,
                                     Steps_Walked = steps ! i, Sleep_Hours = sleep ! i,
                                     Social_Media_Hours = social ! i,
                                     Public_Transport_Usage = public ! i,
                                     Recycling_Rate = recycling ! i,
                                     Digital_Service_Usage = digital ! i,
                                     Age_Group = None\<rparr>) [0..<n]\<rparr>
         else Inl ValueError)"

text \<open>
  Lines 92-115. \<open>s0\<close> is the state of the global generator when the function is called;
  the result comes with the state it leaves behind.
\<close>

definition generate_mock_data :: "'s np_random \<Rightarrow> nat \<Rightarrow> 's \<Rightarrow> (py_error + dataframe) \<times> 's" where
  "generate_mock_data rng n_samples s0 =
     (let s1 = np_seed rng 42;
          transport_modes = [''Bus'', ''Car'', ''Bicycle'', ''Walk'', ''EV'', ''Train'', ''Motorcycle''];
          genders = [''Male'', ''Female'', ''Non-binary''];
          districts = [''Downtown'', ''Uptown'', ''Westside'', ''Eastside'', ''Suburbs'', ''Industrial''];
          (age, s2) = np_randint rng 18 80 n_samples s1;
          (gender, s3) = np_choice rng genders n_samples s2;
          (district, s4) = np_choice rng districts n_samples s3;
          (mode, s5) = np_choice rng transport_modes n_samples s4;
          (carbon, s6) = np_normal rng 10 5 n_samples s5;
          (steps, s7) = np_randint rng 1000 15000 n_samples s6;
          (sleep, s8) = np_normal rng 7 1.5 n_samples s7;
          (social, s9) = np_exponential rng 2 n_samples s8;
          (public, s10) = np_choice rng [''Daily'', ''Weekly'', ''Monthly'', ''Rarely'', ''Never'']
                            n_samples s9;
          (recycling, s11) = np_normal rng 65 20 n_samples s10;
          (digital, s12) = np_randint rng 1 10 n_samples s11
      in (DataFrame age gender district mode (clip 0 30 carbon) steps (clip 4 10 sleep)
            (clip 0 10 social) public (clip 0 100 recycling) digital,
          s12))"

definition mock_notice :: string where
  "mock_notice = ''Using generated mock data. Replace with your actual dataset for production use.''"

text \<open>
  Lines 84-90. \<open>read_csv\<close> is the outcome of reading the dataset file, \<open>notices\<close> the
  messages shown with \<^verbatim>\<open>st.info\<close> so far. Only \<^verbatim>\<open>FileNotFoundError\<close> is caught.
\<close>

definition load_data ::
  "py_error + dataframe \<Rightarrow> 's np_random \<Rightarrow> 's \<Rightarrow> string list \<Rightarrow>
   (py_error + dataframe) \<times> 's \<times> string list" where
  "load_data read_csv rng s notices =
     (case read_csv of
        Inr df \<Rightarrow> (Inr df, s, notices)
      | Inl e \<Rightarrow>
          if e = FileNotFoundError
          then (let notices' = notices @ [mock_notice];
                    (df, s') = generate_mock_data rng 300 s
                in (df, s', notices'))
          else (Inl e, s, notices))"

section \<open>Test data\<close>

definition mk_citizen :: "int \<Rightarrow> string \<Rightarrow> string \<Rightarrow> string \<Rightarrow> citizen" where
  "mk_citizen a g d m =
     \<lparr>Age = a, Gender = g, District = d, Mode_of_Transport = m,
      Carbon_Footprint_kgCO2 = 10, Steps_Walked = 5000, Sleep_Hours = 7,
      Social_Media_Hours = 2, Public_Transport_Usage = ''Daily'',
      Recycling_Rate = 65, Digital_Service_Usage = 5, Age_Group = None\<rparr>"

definition small_df :: dataframe where
  "small_df =
     \<lparr>columns = base_columns,
      rows = [mk_citizen 30 ''Male'' ''Uptown'' ''EV'',
              mk_citizen 70 ''Female'' ''Uptown'' ''EV'',
              mk_citizen 40 ''Female'' ''Downtown'' ''Bus'',
              mk_citizen 50 ''Male'' ''Suburbs'' ''Car'']\<rparr>"

definition small_criteria :: filter_criteria where
  "small_criteria =
     \<lparr>age_range = (20, 60), gender_filter = [''Male'', ''Female''],
      district_filter = Some [''Uptown'', ''Downtown''],
      transport_filter = [''EV'', ''Bus'', ''Car'']\<rparr>"

definition empty_df :: dataframe where
  "empty_df = \<lparr>columns = base_columns, rows = []\<rparr>"

definition one_row_df :: dataframe where
  "one_row_df = \<lparr>columns = base_columns, rows = [mk_citizen 30 ''Male'' ''Uptown'' ''EV'']\<rparr>"

text \<open>The scenario of the specification: ten rows, five of them male, aged 20 to 60.\<close>

definition scenario_df :: dataframe where
  "scenario_df =
     \<lparr>columns = base_columns,
      rows = [mk_citizen 20 ''Male'' ''Downtown'' ''Bus'',
              mk_citizen 22 ''Female'' ''Uptown'' ''Car'',
              mk_citizen 30 ''Male'' ''Uptown'' ''Car'',
              mk_citizen 35 ''Female'' ''Westside'' ''EV'',
              mk_citizen 40 ''Male'' ''Westside'' ''Bicycle'',
              mk_citizen 45 ''Non-binary'' ''Eastside'' ''Walk'',
              mk_citizen 50 ''Male'' ''Suburbs'' ''Train'',
              mk_citizen 52 ''Female'' ''Industrial'' ''Motorcycle'',
              mk_citizen 60 ''Male'' ''Downtown'' ''EV'',
              mk_citizen 28 ''Female'' ''Downtown'' ''Bus'']\<rparr>"

definition scenario_criteria :: filter_criteria where
  "scenario_criteria =
     \<lparr>age_range = (25, 55), gender_filter = [''Male''],
      district_filter =
        Some [''Downtown'', ''Uptown'', ''Westside'', ''Eastside'', ''Suburbs'', ''Industrial''],
      transport_filter = [''Bus'', ''Car'', ''Bicycle'', ''Walk'', ''EV'', ''Train'', ''Motorcycle'']\<rparr>"

definition male_ages :: "dataframe \<Rightarrow> int list" where
  "male_ages df = map Age (filter (\<lambda>r. Gender r = ''Male'') (rows df))"

definition ages :: "dataframe \<Rightarrow> int list" where
  "ages df = map Age (rows df)"

text \<open>A small generator that meets \<open>np_contract\<close>; its state is a counter.\<close>

definition toy_rng :: "nat np_random" where
  "toy_rng =
     \<lparr>np_seed = (\<lambda>k. k),
      np_randint = (\<lambda>low high n s. (map (\<lambda>i. low + int (s + i) mod (high - low)) [0..<n], s + n)),
      np_choice = (\<lambda>a n s. (map (\<lambda>i. a ! ((s + i) mod length a)) [0..<n], s + n)),
      np_normal = (\<lambda>loc scale n s. (map (\<lambda>i. loc + scale * (real ((s + i) mod 7) - 3)) [0..<n], s + n)),
      np_exponential = (\<lambda>scale n s. (map (\<lambda>i. scale * real ((s + i) mod 5)) [0..<n], s + n))\<rparr>"

section \<open>Properties of the filter\<close>

lemma mk_citizen_sel [simp]:
  "Age (mk_citizen a g d m) = a"
  "Gender (mk_citizen a g d m) = g"
  "District (mk_citizen a g d m) = d"
  "Mode_of_Transport (mk_citizen a g d m) = m"
  "Recycling_Rate (mk_citizen a g d m) = 65"
  "Carbon_Footprint_kgCO2 (mk_citizen a g d m) = 10"
  "Age_Group (mk_citizen a g d m) = None"
  by (simp_all add: mk_citizen_def)

lemma rows_boolean_index: "rows (boolean_index df msk) = filter msk (rows df)"
  by (simp add: boolean_index_def)

lemma columns_boolean_index: "columns (boolean_index df msk) = columns df"
  by (simp add: boolean_index_def)

lemma columns_apply_filters: "columns (apply_filters df c) = columns df"
  by (simp add: apply_filters_def Let_def columns_boolean_index split: option.splits)

lemma rows_apply_filters:
  assumes "valid_criteria df c"
  shows "rows (apply_filters df c) = filter (criteria_predicate c) (rows df)"
proof (cases "truthy (district_filter c)")
  case False
  then have "criteria_predicate c =
      (\<lambda>r. Age r \<ge> fst (age_range c) \<and> Age r \<le> snd (age_range c) \<and>
           isin (Gender r) (gender_filter c) \<and>
           isin (Mode_of_Transport r) (transport_filter c))"
    by (cases "district_filter c") (auto simp: fun_eq_iff criteria_predicate_def isin_def)
  with False show ?thesis
    by (simp add: apply_filters_def Let_def rows_boolean_index)
next
  case True
  then obtain ds where ds: "district_filter c = Some ds" "ds \<noteq> []"
    by (cases "district_filter c") auto
  from True assms have col: "''District'' \<in> set (columns df)"
    by (simp add: valid_criteria_def)
  have "criteria_predicate c =
      (\<lambda>r. (Age r \<ge> fst (age_range c) \<and> Age r \<le> snd (age_range c) \<and>
            isin (Gender r) (gender_filter c) \<and>
            isin (Mode_of_Transport r) (transport_filter c)) \<and> isin (District r) ds)"
    using ds by (auto simp: fun_eq_iff criteria_predicate_def isin_def)
  moreover have "rows (apply_filters df c) =
      filter (\<lambda>r. isin (District r) ds)
        (filter (\<lambda>r. Age r \<ge> fst (age_range c) \<and> Age r \<le> snd (age_range c) \<and>
            isin (Gender r) (gender_filter c) \<and>
            isin (Mode_of_Transport r) (transport_filter c)) (rows df))"
    using ds col by (simp add: apply_filters_def Let_def rows_boolean_index)
  ultimately show ?thesis
    by (simp only: filter_filter conj_commute [of "isin (District _) ds"])
qed

lemma sidebar_criteria_valid:
  "valid_criteria df (c\<lparr>district_filter := sidebar_district_filter df selection\<rparr>)"
  by (simp add: valid_criteria_def sidebar_district_filter_def)

text \<open>
  Claim C1. For every table and every criteria value that fits it, \<open>apply_filters\<close> returns
  exactly the rows that satisfy the specification's predicate: the output is the
  sub-sequence of those rows, every output row satisfies the predicate, and no input
  row that satisfies it is left out.
\<close>

theorem apply_filters_exact:
  assumes "valid_criteria df c"
  shows "rows (apply_filters df c) = filter (criteria_predicate c) (rows df)
       \<and> (\<forall>r \<in> set (rows (apply_filters df c)). criteria_predicate c r)
       \<and> (\<forall>r \<in> set (rows df). criteria_predicate c r \<longrightarrow> r \<in> set (rows (apply_filters df c)))"
  using rows_apply_filters [OF assms] by simp

theorem apply_filters_exact_witness:
  "valid_criteria small_df small_criteria
   \<and> rows (apply_filters small_df small_criteria)
       = [mk_citizen 30 ''Male'' ''Uptown'' ''EV'', mk_citizen 40 ''Female'' ''Downtown'' ''Bus'']
   \<and> criteria_predicate small_criteria (mk_citizen 30 ''Male'' ''Uptown'' ''EV'')
   \<and> \<not> criteria_predicate small_criteria (mk_citizen 50 ''Male'' ''Suburbs'' ''Car'')"
proof -
  have v: "valid_criteria small_df small_criteria"
    by (simp add: valid_criteria_def small_df_def small_criteria_def base_columns_def)
  have "rows (apply_filters small_df small_criteria)
        = filter (criteria_predicate small_criteria) (rows small_df)"
    using apply_filters_exact [OF v] by (rule conjunct1)
  also have "\<dots> = [mk_citizen 30 ''Male'' ''Uptown'' ''EV'',
                    mk_citizen 40 ''Female'' ''Downtown'' ''Bus'']"
    by (simp add: criteria_predicate_def small_df_def small_criteria_def)
  finally show ?thesis
    using v by (simp add: criteria_predicate_def small_criteria_def)
qed

text \<open>
  Claim C10. Empty selections are not treated alike: with no gender selected, or no
  transport mode selected, the result is empty for every table; with no district
  selected (or no district selection at all) the district condition is skipped and the
  result is that of the other three conditions, whatever the rows' districts are.
\<close>

theorem empty_selections_asymmetric:
  "rows (apply_filters df (c\<lparr>gender_filter := []\<rparr>)) = []
   \<and> rows (apply_filters df (c\<lparr>transport_filter := []\<rparr>)) = []
   \<and> rows (apply_filters df (c\<lparr>district_filter := Some []\<rparr>))
       = filter (\<lambda>r. fst (age_range c) \<le> Age r \<and> Age r \<le> snd (age_range c) \<and>
                     Gender r \<in> set (gender_filter c) \<and>
                     Mode_of_Transport r \<in> set (transport_filter c)) (rows df)
   \<and> rows (apply_filters df (c\<lparr>district_filter := None\<rparr>))
       = rows (apply_filters df (c\<lparr>district_filter := Some []\<rparr>))"
  by (simp add: apply_filters_def Let_def rows_boolean_index isin_def split: option.splits)

theorem empty_selections_asymmetric_witness:
  "rows (apply_filters small_df (small_criteria\<lparr>gender_filter := []\<rparr>)) = []
   \<and> rows (apply_filters small_df (small_criteria\<lparr>transport_filter := []\<rparr>)) = []
   \<and> rows (apply_filters small_df (small_criteria\<lparr>district_filter := Some []\<rparr>))
       = [mk_citizen 30 ''Male'' ''Uptown'' ''EV'', mk_citizen 40 ''Female'' ''Downtown'' ''Bus'',
          mk_citizen 50 ''Male'' ''Suburbs'' ''Car'']"
proof -
  have "filter (\<lambda>r. fst (age_range small_criteria) \<le> Age r \<and> Age r \<le> snd (age_range small_criteria) \<and>
                     Gender r \<in> set (gender_filter small_criteria) \<and>
                     Mode_of_Transport r \<in> set (transport_filter small_criteria)) (rows small_df)
        = [mk_citizen 30 ''Male'' ''Uptown'' ''EV'', mk_citizen 40 ''Female'' ''Downtown'' ''Bus'',
           mk_citizen 50 ''Male'' ''Suburbs'' ''Car'']"
    by (simp add: small_df_def small_criteria_def)
  then show ?thesis
    using empty_selections_asymmetric [of small_df small_criteria] by simp
qed

lemma scenario_rows:
  assumes "age_range c = (25, 55)" and "gender_filter c = [''Male'']"
    and "\<forall>r \<in> set (rows df). Mode_of_Transport r \<in> set (transport_filter c)"
    and "\<forall>r \<in> set (rows df). \<forall>ds. district_filter c = Some ds \<longrightarrow> District r \<in> set ds"
  shows "rows (apply_filters df c)
         = filter (\<lambda>r. Gender r = ''Male'' \<and> 25 \<le> Age r \<and> Age r \<le> 55) (rows df)"
proof -
  have first: "filter (\<lambda>r. Age r \<ge> fst (age_range c) \<and> Age r \<le> snd (age_range c) \<and>
                    isin (Gender r) (gender_filter c) \<and>
                    isin (Mode_of_Transport r) (transport_filter c)) (rows df)
        = filter (\<lambda>r. Gender r = ''Male'' \<and> 25 \<le> Age r \<and> Age r \<le> 55) (rows df)"
    using assms(1-3) by (intro filter_cong) (auto simp: isin_def)
  have second: "filter (\<lambda>r. Gender r = ''Male'' \<and> 25 \<le> Age r \<and> Age r \<le> 55 \<and> isin (District r) ds) (rows df)
                = filter (\<lambda>r. Gender r = ''Male'' \<and> 25 \<le> Age r \<and> Age r \<le> 55) (rows df)"
    if "district_filter c = Some ds" for ds
    using that assms(4) by (intro filter_cong) (auto simp: isin_def)
  show ?thesis
    unfolding apply_filters_def Let_def
    by (cases "district_filter c") (simp_all add: rows_boolean_index first second)
qed

lemma ages_of_males:
  "map Age (filter (\<lambda>r. Gender r = ''Male'' \<and> 25 \<le> Age r \<and> Age r \<le> 55) rs)
   = filter (\<lambda>a. 25 \<le> a \<and> a \<le> 55) (map Age (filter (\<lambda>r. Gender r = ''Male'') rs))"
  by (induction rs) auto

text \<open>
  Claim C3, as amended. For a table of ten rows whose male rows have the ages 20, 30,
  40, 50 and 60, the criteria \<open>age_min = 25\<close>, \<open>age_max = 55\<close>, genders \<open>{Male}\<close>, with every
  transport mode and district of the table selected, give exactly three rows: those
  of ages 30, 40 and 50 (50 lies within the inclusive range).
\<close>

theorem scenario_three_rows:
  assumes "length (rows df) = 10" and "male_ages df = [20, 30, 40, 50, 60]"
    and "age_range c = (25, 55)" and "gender_filter c = [''Male'']"
    and "\<forall>r \<in> set (rows df). Mode_of_Transport r \<in> set (transport_filter c)"
    and "\<forall>r \<in> set (rows df). \<forall>ds. district_filter c = Some ds \<longrightarrow> District r \<in> set ds"
  shows "ages (apply_filters df c) = [30, 40, 50] \<and> length (rows (apply_filters df c)) = 3"
proof -
  have "ages (apply_filters df c)
        = filter (\<lambda>a. 25 \<le> a \<and> a \<le> 55) (male_ages df)"
    unfolding ages_def male_ages_def scenario_rows [OF assms(3-6)] ages_of_males ..
  then have a: "ages (apply_filters df c) = [30, 40, 50]"
    using assms(2) by simp
  have "length (rows (apply_filters df c)) = length (ages (apply_filters df c))"
    by (simp add: ages_def)
  with a show ?thesis by simp
qed

lemma scenario_facts:
  "length (rows scenario_df) = 10"
  "male_ages scenario_df = [20, 30, 40, 50, 60]"
  "age_range scenario_criteria = (25, 55)"
  "gender_filter scenario_criteria = [''Male'']"
  "\<forall>r \<in> set (rows scenario_df). Mode_of_Transport r \<in> set (transport_filter scenario_criteria)"
  "\<forall>r \<in> set (rows scenario_df). \<forall>ds. district_filter scenario_criteria = Some ds
       \<longrightarrow> District r \<in> set ds"
  by (simp_all add: scenario_df_def scenario_criteria_def male_ages_def)

theorem scenario_three_rows_witness:
  "length (rows scenario_df) = 10 \<and> male_ages scenario_df = [20, 30, 40, 50, 60]
   \<and> ages (apply_filters scenario_df scenario_criteria) = [30, 40, 50]
   \<and> length (rows (apply_filters scenario_df scenario_criteria)) = 3"
  using scenario_three_rows [OF scenario_facts] scenario_facts(1,2) by simp

theorem scenario_two_rows_counterexample:
  "length (rows scenario_df) = 10 \<and> male_ages scenario_df = [20, 30, 40, 50, 60]
   \<and> age_range scenario_criteria = (25, 55) \<and> gender_filter scenario_criteria = [''Male'']
   \<and> length (rows (apply_filters scenario_df scenario_criteria)) \<noteq> 2
   \<and> ages (apply_filters scenario_df scenario_criteria) \<noteq> [30, 40]"
proof -
  have "rows (apply_filters scenario_df scenario_criteria)
        = [mk_citizen 30 ''Male'' ''Uptown'' ''Car'', mk_citizen 40 ''Male'' ''Westside'' ''Bicycle'',
           mk_citizen 50 ''Male'' ''Suburbs'' ''Train'']"
    by (simp add: apply_filters_def Let_def boolean_index_def isin_def scenario_df_def
        scenario_criteria_def base_columns_def)
  then show ?thesis
    using scenario_facts(1-4) by (simp add: ages_def)
qed

section \<open>Age groups\<close>

lemma cut_age_bins:
  "cut x age_bins age_labels = Inr (map (bin_label age_bins age_labels) x)"
  by (simp add: cut_def age_bins_def age_labels_def)

lemma cut_literal_bins:
  "cut x [18, 25, 35, 45, 55, 65, 75, 100]
     [''18-24'', ''25-34'', ''35-44'', ''45-54'', ''55-64'', ''65-74'', ''75+'']
   = Inr (map (bin_label age_bins age_labels) x)"
  using cut_age_bins [of x] by (simp add: age_bins_def age_labels_def)

text \<open>
  The bins of the script, edge by edge: each interior edge belongs to the bin that
  starts there, ages below 18 have no group, and neither has any age from 100 on.
\<close>

lemma age_group_intervals:
  "bin_label age_bins age_labels x =
     (if x < 18 then None
      else if x < 25 then Some ''18-24''
      else if x < 35 then Some ''25-34''
      else if x < 45 then Some ''35-44''
      else if x < 55 then Some ''45-54''
      else if x < 65 then Some ''55-64''
      else if x < 75 then Some ''65-74''
      else if x < 100 then Some ''75+''
      else None)"
  by (simp add: bin_label_def searchsorted_right_def age_bins_def age_labels_def)

text \<open>
  Claim C2, on the code. The ages 24, 25, 75 and 99 get the groups \<open>18-24\<close>, \<open>25-34\<close>,
  \<open>75+\<close> and \<open>75+\<close>; the age 100 gets none (NaN): with \<^verbatim>\<open>right=False\<close> the last bin
  is \<open>[75, 100)\<close> and leaves its upper edge out.
\<close>

theorem age_100_has_no_group:
  "cut [24, 25, 75, 99, 100] age_bins age_labels
   = Inr [Some ''18-24'', Some ''25-34'', Some ''75+'', Some ''75+'', None]"
  by (simp add: cut_age_bins age_group_intervals)

section \<open>Grouped means\<close>

lemma mean_eq_None: "mean xs = None \<longleftrightarrow> xs = []"
  by (simp add: mean_def)

lemma set_map_filter_conv:
  "set (List.map_filter f xs) = {y. \<exists>x \<in> set xs. f x = Some y}"
  by (induction xs) (auto split: option.splits)

lemma Some_in_keys: "Some k \<in> set (map key rs) \<longleftrightarrow> (\<exists>r \<in> set rs. key r = Some k)"
  by force

lemma keys_groupby_mean:
  "fst ` set (groupby_mean key val rs) = {k. \<exists>r \<in> set rs. key r = Some k}"
  by (auto simp: groupby_mean_def set_map_filter_conv image_iff)

lemma values_groupby_mean:
  assumes "(k, v) \<in> set (groupby_mean key val rs)"
  shows "v \<noteq> None"
proof -
  from assms obtain r where "r \<in> set rs" "key r = Some k"
    and v: "v = mean (map val (filter (\<lambda>r. key r = Some k) rs))"
    by (auto simp: groupby_mean_def set_map_filter_conv)
  then have "filter (\<lambda>r. key r = Some k) rs \<noteq> []"
    by (auto simp: filter_empty_conv)
  with v show ?thesis by (simp add: mean_eq_None)
qed

lemma keys_groupby_observed:
  "fst ` set (groupby_categorical_mean True cats key val rs)
   = {k \<in> set cats. \<exists>r \<in> set rs. key r = Some k}"
  unfolding groupby_categorical_mean_def Some_in_keys by force

lemma values_groupby_observed:
  assumes "(k, v) \<in> set (groupby_categorical_mean True cats key val rs)"
  shows "v \<noteq> None"
proof -
  from assms obtain r where "r \<in> set rs" "key r = Some k"
    and v: "v = mean (map val (filter (\<lambda>r. key r = Some k) rs))"
    unfolding groupby_categorical_mean_def Some_in_keys by auto
  then have "filter (\<lambda>r. key r = Some k) rs \<noteq> []"
    by (auto simp: filter_empty_conv)
  with v show ?thesis by (simp add: mean_eq_None)
qed

lemma keys_groupby_unobserved:
  "map fst (groupby_categorical_mean False cats key val rs) = cats"
  by (simp add: groupby_categorical_mean_def comp_def)

lemma nan_groupby_unobserved:
  assumes "k \<in> set cats" and "\<forall>r \<in> set rs. key r \<noteq> Some k"
  shows "(k, None) \<in> set (groupby_categorical_mean False cats key val rs)"
proof -
  have "filter (\<lambda>r. key r = Some k) rs = []"
    using assms(2) by (simp add: filter_empty_conv)
  then have "mean (map val (filter (\<lambda>r. key r = Some k) rs)) = None"
    by (simp add: mean_eq_None)
  with assms(1) show ?thesis
    by (force simp: groupby_categorical_mean_def image_iff)
qed

lemma set_sort_values: "set (sort_values t) = set t"
  by (auto simp: sort_values_def)

lemma transport_carbon_modes:
  "fst ` set (transport_carbon d) = Mode_of_Transport ` set (rows d)"
  by (auto simp: transport_carbon_def set_sort_values keys_groupby_mean image_iff)

lemma transport_carbon_empty: "rows d = [] \<Longrightarrow> transport_carbon d = []"
  by (simp add: transport_carbon_def groupby_mean_def sort_values_def List.map_filter_simps)

text \<open>
  Claim C4, as amended. A grouped mean over a column of plain values
  (\<open>Mode_of_Transport\<close>, \<open>Gender\<close>, \<open>District\<close>) has an entry exactly for the keys
  that occur in a row, none of them NaN, and is empty for an empty table; so has the
  grouped mean over the categorical \<open>Age_Group\<close> when pandas groups with
  \<^verbatim>\<open>observed=True\<close>. With \<^verbatim>\<open>observed=False\<close>, the default before pandas 3.0 that the
  script leaves in place, the grouped mean over \<open>Age_Group\<close> lists every label, with
  NaN for a label without rows.
\<close>

theorem mean_by_groups:
  "groupby_mean key val [] = []
   \<and> (\<forall>k. k \<in> fst ` set (groupby_mean key val rs) \<longleftrightarrow> (\<exists>r \<in> set rs. key r = Some k))
   \<and> (\<forall>(k, v) \<in> set (groupby_mean key val rs). v \<noteq> None)
   \<and> groupby_categorical_mean True cats ckey val [] = []
   \<and> (\<forall>k. k \<in> fst ` set (groupby_categorical_mean True cats ckey val rs)
          \<longleftrightarrow> k \<in> set cats \<and> (\<exists>r \<in> set rs. ckey r = Some k))
   \<and> (\<forall>(k, v) \<in> set (groupby_categorical_mean True cats ckey val rs). v \<noteq> None)
   \<and> map fst (groupby_categorical_mean False cats ckey val rs) = cats
   \<and> (\<forall>k \<in> set cats. (\<forall>r \<in> set rs. ckey r \<noteq> Some k)
          \<longrightarrow> (k, None) \<in> set (groupby_categorical_mean False cats ckey val rs))"
proof (intro conjI)
  show "groupby_mean key val [] = []"
    by (simp add: groupby_mean_def List.map_filter_simps)
  show "\<forall>k. k \<in> fst ` set (groupby_mean key val rs) \<longleftrightarrow> (\<exists>r \<in> set rs. key r = Some k)"
    by (simp add: keys_groupby_mean)
  show "\<forall>(k, v) \<in> set (groupby_mean key val rs). v \<noteq> None"
    using values_groupby_mean by fastforce
  show "groupby_categorical_mean True cats ckey val [] = []"
    by (simp add: groupby_categorical_mean_def)
  show "\<forall>k. k \<in> fst ` set (groupby_categorical_mean True cats ckey val rs)
          \<longleftrightarrow> k \<in> set cats \<and> (\<exists>r \<in> set rs. ckey r = Some k)"
    by (simp add: keys_groupby_observed)
  show "\<forall>(k, v) \<in> set (groupby_categorical_mean True cats ckey val rs). v \<noteq> None"
    using values_groupby_observed by fastforce
  show "map fst (groupby_categorical_mean False cats ckey val rs) = cats"
    by (rule keys_groupby_unobserved)
  show "\<forall>k \<in> set cats. (\<forall>r \<in> set rs. ckey r \<noteq> Some k)
          \<longrightarrow> (k, None) \<in> set (groupby_categorical_mean False cats ckey val rs)"
    using nan_groupby_unobserved by fastforce
qed

theorem mean_by_groups_witness:
  "groupby_mean (\<lambda>r. Some (Mode_of_Transport r)) Carbon_Footprint_kgCO2 ([] :: citizen list) = []
   \<and> ''EV'' \<in> fst ` set (groupby_mean (\<lambda>r. Some (Mode_of_Transport r)) Carbon_Footprint_kgCO2
                            (rows small_df))
   \<and> ''Train'' \<notin> fst ` set (groupby_mean (\<lambda>r. Some (Mode_of_Transport r)) Carbon_Footprint_kgCO2
                               (rows small_df))
   \<and> map fst (groupby_categorical_mean False age_labels Age_Group Recycling_Rate (rows small_df))
       = age_labels
   \<and> (''75+'', None)
       \<in> set (groupby_categorical_mean False age_labels Age_Group Recycling_Rate (rows small_df))"
proof -
  note m = mean_by_groups [of "\<lambda>r. Some (Mode_of_Transport r)" Carbon_Footprint_kgCO2
      "rows small_df" age_labels Age_Group]
  have 1: "groupby_mean (\<lambda>r. Some (Mode_of_Transport r)) Carbon_Footprint_kgCO2
             ([] :: citizen list) = []"
    using m by (rule conjunct1)
  note m2 = m [THEN conjunct2]
  note m7 = mean_by_groups [of "\<lambda>r. Some (Mode_of_Transport r)" Recycling_Rate
      "rows small_df" age_labels Age_Group, THEN conjunct2, THEN conjunct2, THEN conjunct2,
      THEN conjunct2, THEN conjunct2, THEN conjunct2]
  have "\<forall>k. k \<in> fst ` set (groupby_mean (\<lambda>r. Some (Mode_of_Transport r)) Carbon_Footprint_kgCO2
                               (rows small_df))
          \<longleftrightarrow> (\<exists>r \<in> set (rows small_df). Some (Mode_of_Transport r) = Some k)"
    using m2 by (rule conjunct1)
  then have 2: "''EV'' \<in> fst ` set (groupby_mean (\<lambda>r. Some (Mode_of_Transport r))
                                      Carbon_Footprint_kgCO2 (rows small_df))"
    and 3: "''Train'' \<notin> fst ` set (groupby_mean (\<lambda>r. Some (Mode_of_Transport r))
                                      Carbon_Footprint_kgCO2 (rows small_df))"
    by (simp_all add: small_df_def)
  have 4: "map fst (groupby_categorical_mean False age_labels Age_Group Recycling_Rate
                      (rows small_df)) = age_labels"
    using m7 by (rule conjunct1)
  have "\<forall>k \<in> set age_labels. (\<forall>r \<in> set (rows small_df). Age_Group r \<noteq> Some k)
          \<longrightarrow> (k, None) \<in> set (groupby_categorical_mean False age_labels Age_Group
                                   Recycling_Rate (rows small_df))"
    using m7 by (rule conjunct2)
  then have 5: "(''75+'', None) \<in> set (groupby_categorical_mean False age_labels Age_Group
                                          Recycling_Rate (rows small_df))"
    by (simp add: small_df_def age_labels_def)
  from 1 2 3 4 5 show ?thesis by (intro conjI)
qed

section \<open>The script on the store\<close>

lemma zip_map_self: "zip xs (map f xs) = map (\<lambda>x. (x, f x)) xs"
  by (induction xs) auto

lemma rows_assign_Age_Group:
  "rows (assign_Age_Group d (map g (rows d))) = map (\<lambda>r. r\<lparr>Age_Group := g r\<rparr>) (rows d)"
  by (simp add: assign_Age_Group_def zip_map_self)

lemma age_groups_of_ev_users:
  "map Age_Group (rows (boolean_index (assign_Age_Group d (map g (rows d)))
                          (\<lambda>r. Mode_of_Transport r = ''EV'')))
   = map g (filter (\<lambda>r. Mode_of_Transport r = ''EV'') (rows d))"
  by (simp add: rows_boolean_index rows_assign_Age_Group filter_map comp_def)

lemma sidebar_filters_run:
  assumes "df < length h"
  shows "\<exists>a ys. sidebar_filters h df c = (a, h @ ys) \<and> length h \<le> a \<and> a < length (h @ ys)
               \<and> (h @ ys) ! a = apply_filters (h ! df) c"
proof (cases "truthy (district_filter c) \<and> ''District'' \<in> set (columns (h ! df))")
  case False
  let ?f = "apply_filters (h ! df) c"
  have "sidebar_filters h df c = (length h, h @ [?f])"
    using False assms
    by (auto simp: sidebar_filters_def getitem_def new_object_def apply_filters_def
        Let_def nth_append)
  then show ?thesis by (intro exI [of _ "length h"] exI [of _ "[?f]"]) simp
next
  case True
  then obtain ds where ds: "district_filter c = Some ds"
    by (cases "district_filter c") auto
  let ?m = "\<lambda>r. Age r \<ge> fst (age_range c) \<and> Age r \<le> snd (age_range c) \<and>
                 isin (Gender r) (gender_filter c) \<and>
                 isin (Mode_of_Transport r) (transport_filter c)"
  let ?f1 = "boolean_index (h ! df) ?m"
  let ?f = "apply_filters (h ! df) c"
  have f: "?f = boolean_index ?f1 (\<lambda>r. isin (District r) ds)"
    using True ds by (simp add: apply_filters_def Let_def)
  have "sidebar_filters h df c = (Suc (length h), h @ [?f1, ?f])"
    using True ds assms unfolding f
    by (simp add: sidebar_filters_def getitem_def new_object_def Let_def nth_append)
  then show ?thesis
    by (intro exI [of _ "Suc (length h)"] exI [of _ "[?f1, ?f]"]) (simp add: nth_append)
qed

lemma ev_age_distribution_run:
  assumes "df < length h"
  shows "\<exists>ys. ev_age_distribution h df =
           Inr (value_counts_sort_index age_labels
                  (map (\<lambda>r. bin_label age_bins age_labels (Age r))
                     (filter (\<lambda>r. Mode_of_Transport r = ''EV'') (rows (h ! df)))),
                h @ ys)"
proof -
  let ?col = "map (\<lambda>r. bin_label age_bins age_labels (Age r)) (rows (h ! df))"
  let ?g = "assign_Age_Group (h ! df) ?col"
  let ?ev = "boolean_index ?g (\<lambda>r. Mode_of_Transport r = ''EV'')"
  have "ev_age_distribution h df =
          Inr (value_counts_sort_index age_labels (map Age_Group (rows ?ev)), h @ [?g, ?ev])"
    using assms
    by (simp add: ev_age_distribution_def df_copy_def getitem_def new_object_def
        setitem_Age_Group_def cut_age_bins Let_def nth_append comp_def)
  then show ?thesis
    unfolding age_groups_of_ev_users by (intro exI [of _ "[?g, ?ev]"]) simp
qed

lemma recycling_by_age_run:
  assumes "a < length h"
  shows "\<exists>t ys. recycling_by_age observed h a = Inr (t, h @ ys)"
proof (cases "''Age_Group'' \<in> set (columns (h ! a))")
  case True
  then show ?thesis
    using assms
    by (simp add: recycling_by_age_def df_copy_def new_object_def Let_def nth_append)
next
  case False
  let ?col = "map (\<lambda>r. bin_label age_bins age_labels (Age r)) (rows (h ! a))"
  let ?g = "assign_Age_Group (h ! a) ?col"
  have "recycling_by_age observed h a =
          Inr (groupby_categorical_mean observed
                 [''18-24'', ''25-34'', ''35-44'', ''45-54'', ''55-64'', ''65-74'', ''75+'']
                 Age_Group Recycling_Rate (rows ?g), h @ [?g])"
    using False assms
    by (simp add: recycling_by_age_def df_copy_def new_object_def setitem_Age_Group_def
        cut_literal_bins Let_def nth_append comp_def)
  then show ?thesis by blast
qed

lemma dashboard_run:
  assumes "df < length h"
  shows "\<exists>p ys. dashboard observed h df c = Inr (p, h @ ys)
           \<and> length h \<le> page_filtered_df p \<and> page_filtered_df p < length (h @ ys)
           \<and> (h @ ys) ! page_filtered_df p = apply_filters (h ! df) c
           \<and> page_transport_carbon p = transport_carbon (apply_filters (h ! df) c)
           \<and> page_ev_age_distribution p =
               value_counts_sort_index age_labels
                 (map (\<lambda>r. bin_label age_bins age_labels (Age r))
                    (filter (\<lambda>r. Mode_of_Transport r = ''EV'') (rows (h ! df))))"
proof -
  let ?evt = "value_counts_sort_index age_labels
                 (map (\<lambda>r. bin_label age_bins age_labels (Age r))
                    (filter (\<lambda>r. Mode_of_Transport r = ''EV'') (rows (h ! df))))"
  let ?f = "apply_filters (h ! df) c"
  from sidebar_filters_run [OF assms, of c] obtain a ys1 where
    s: "sidebar_filters h df c = (a, h @ ys1)" and a: "length h \<le> a" "a < length (h @ ys1)"
    and f: "(h @ ys1) ! a = ?f"
    by blast
  have "df < length (h @ ys1)" using assms by simp
  from ev_age_distribution_run [OF this] obtain ys2 where
    "ev_age_distribution (h @ ys1) df =
       Inr (value_counts_sort_index age_labels
              (map (\<lambda>r. bin_label age_bins age_labels (Age r))
                 (filter (\<lambda>r. Mode_of_Transport r = ''EV'') (rows ((h @ ys1) ! df)))),
            (h @ ys1) @ ys2)"
    by blast
  then have e: "ev_age_distribution (h @ ys1) df = Inr (?evt, h @ ys1 @ ys2)"
    using assms by (simp add: nth_append)
  have a2: "a < length (h @ ys1 @ ys2)" using a by simp
  have f2: "(h @ ys1 @ ys2) ! a = ?f"
    using a f by (simp add: nth_append)
  from recycling_by_age_run [OF a2, of observed] obtain t ys3 where
    r: "recycling_by_age observed (h @ ys1 @ ys2) a = Inr (t, h @ ys1 @ ys2 @ ys3)"
    by auto
  have f3: "(h @ ys1 @ ys2 @ ys3) ! a = ?f"
    using a f by (simp add: nth_append)
  show ?thesis
  proof (cases "''Recycling_Rate'' \<in> set (columns ?f)")
    case True
    have "dashboard observed h df c =
            Inr (\<lparr>page_filtered_df = a, page_transport_carbon = transport_carbon ?f,
                  page_ev_age_distribution = ?evt, page_recycling_by_age = Some t\<rparr>,
                 h @ ys1 @ ys2 @ ys3)"
      using True by (simp add: dashboard_def s e r f f2)
    then show ?thesis
      using a f3
      by (intro exI [of _ "\<lparr>page_filtered_df = a, page_transport_carbon = transport_carbon ?f,
                  page_ev_age_distribution = ?evt, page_recycling_by_age = Some t\<rparr>"]
          exI [of _ "ys1 @ ys2 @ ys3"]) simp
  next
    case False
    have "dashboard observed h df c =
            Inr (\<lparr>page_filtered_df = a, page_transport_carbon = transport_carbon ?f,
                  page_ev_age_distribution = ?evt, page_recycling_by_age = None\<rparr>,
                 h @ ys1 @ ys2)"
      using False by (simp add: dashboard_def s e f f2)
    then show ?thesis
      using a f2
      by (intro exI [of _ "\<lparr>page_filtered_df = a, page_transport_carbon = transport_carbon ?f,
                  page_ev_age_distribution = ?evt, page_recycling_by_age = None\<rparr>"]
          exI [of _ "ys1 @ ys2"]) simp
  qed
qed

text \<open>
  Claim C5. Whatever the sidebar's criteria are, the table of EV users per age group
  that a run of the script shows is the count, per age group, of the rows of the loaded
  table whose transport mode is \<open>EV\<close>: neither the age range nor the gender, district or
  transport selections enter it.
\<close>

theorem ev_by_age_group_unfiltered:
  assumes "df < length h"
  shows "\<exists>p h'. dashboard observed h df c = Inr (p, h')
           \<and> page_ev_age_distribution p =
               value_counts_sort_index age_labels
                 (map (\<lambda>r. bin_label age_bins age_labels (Age r))
                    (filter (\<lambda>r. Mode_of_Transport r = ''EV'') (rows (h ! df))))"
  using dashboard_run [OF assms, of observed c] by blast

theorem ev_by_age_group_unfiltered_witness:
  "(0::nat) < length [small_df]
   \<and> ages (apply_filters small_df small_criteria) = [30, 40]
   \<and> (\<exists>p h'. dashboard False [small_df] 0 small_criteria = Inr (p, h')
         \<and> page_ev_age_distribution p =
             [(''18-24'', 0), (''25-34'', 1), (''35-44'', 0), (''45-54'', 0), (''55-64'', 0),
              (''65-74'', 1), (''75+'', 0)])"
proof -
  have l: "(0::nat) < length [small_df]" by simp
  have t: "value_counts_sort_index age_labels
             (map (\<lambda>r. bin_label age_bins age_labels (Age r))
                (filter (\<lambda>r. Mode_of_Transport r = ''EV'') (rows ([small_df] ! 0))))
           = [(''18-24'', 0), (''25-34'', 1), (''35-44'', 0), (''45-54'', 0), (''55-64'', 0),
              (''65-74'', 1), (''75+'', 0)]"
  proof -
    have "map (\<lambda>r. bin_label age_bins age_labels (Age r))
            (filter (\<lambda>r. Mode_of_Transport r = ''EV'') (rows ([small_df] ! 0)))
          = [Some ''25-34'', Some ''65-74'']"
      by (simp add: age_group_intervals small_df_def)
    then show ?thesis
      by (simp add: value_counts_sort_index_def age_labels_def)
  qed
  have f: "ages (apply_filters small_df small_criteria) = [30, 40]"
    by (simp add: ages_def apply_filters_def Let_def boolean_index_def isin_def small_df_def
        small_criteria_def base_columns_def)
  show ?thesis
    using ev_by_age_group_unfiltered [OF l, of False small_criteria] f
    unfolding t by simp
qed

text \<open>
  Claim C9. Filtering never changes the table it reads. On the store, the sidebar's
  filter leaves every object that existed before as it was, the loaded table among
  them, and binds \<^verbatim>\<open>filtered_df\<close> to a new object that holds the filtered rows; the same
  holds after the whole run, where the \<open>Age_Group\<close> column is written to copies only.
\<close>

theorem input_table_never_mutated:
  assumes "df < length h"
  shows "(\<exists>a h1. sidebar_filters h df c = (a, h1) \<and> take (length h) h1 = h \<and> h1 ! df = h ! df
             \<and> length h \<le> a \<and> h1 ! a = apply_filters (h ! df) c)
       \<and> (\<exists>p h'. dashboard observed h df c = Inr (p, h') \<and> take (length h) h' = h
             \<and> h' ! df = h ! df \<and> length h \<le> page_filtered_df p
             \<and> h' ! page_filtered_df p = apply_filters (h ! df) c)"
proof
  from sidebar_filters_run [OF assms, of c] obtain a ys where
    "sidebar_filters h df c = (a, h @ ys)" "length h \<le> a"
    "(h @ ys) ! a = apply_filters (h ! df) c"
    by blast
  moreover have "take (length h) (h @ ys) = h" "(h @ ys) ! df = h ! df"
    using assms by (simp_all add: nth_append)
  ultimately show "\<exists>a h1. sidebar_filters h df c = (a, h1) \<and> take (length h) h1 = h
      \<and> h1 ! df = h ! df \<and> length h \<le> a \<and> h1 ! a = apply_filters (h ! df) c"
    by blast
next
  from dashboard_run [OF assms, of observed c] obtain p ys where
    "dashboard observed h df c = Inr (p, h @ ys)" "length h \<le> page_filtered_df p"
    "(h @ ys) ! page_filtered_df p = apply_filters (h ! df) c"
    by blast
  moreover have "take (length h) (h @ ys) = h" "(h @ ys) ! df = h ! df"
    using assms by (simp_all add: nth_append)
  ultimately show "\<exists>p h'. dashboard observed h df c = Inr (p, h') \<and> take (length h) h' = h
      \<and> h' ! df = h ! df \<and> length h \<le> page_filtered_df p
      \<and> h' ! page_filtered_df p = apply_filters (h ! df) c"
    by blast
qed

theorem input_table_never_mutated_witness:
  "(0::nat) < length [small_df]
   \<and> (\<exists>a h1. sidebar_filters [small_df] 0 small_criteria = (a, h1) \<and> h1 ! 0 = small_df
          \<and> 1 \<le> a \<and> ages (h1 ! a) = [30, 40])
   \<and> (\<exists>p h'. dashboard False [small_df] 0 small_criteria = Inr (p, h') \<and> h' ! 0 = small_df)"
proof -
  have l: "(0::nat) < length [small_df]" by simp
  have f: "ages (apply_filters small_df small_criteria) = [30, 40]"
    by (simp add: ages_def apply_filters_def Let_def boolean_index_def isin_def small_df_def
        small_criteria_def base_columns_def)
  show ?thesis
    using input_table_never_mutated [OF l, of small_criteria False] f by auto
qed

text \<open>
  The store tells the two versions of the EV block apart: the older checkpoint file
  writes the \<open>Age_Group\<close> column into the loaded table.
\<close>

lemma checkpoint_changes_df:
  assumes "df < length h" and "''Age_Group'' \<notin> set (columns (h ! df))"
    and "ev_age_distribution_checkpoint h df = Inr (t, h')"
  shows "columns (h' ! df) = columns (h ! df) @ [''Age_Group'']" and "h' ! df \<noteq> h ! df"
proof -
  let ?g = "assign_Age_Group (h ! df) (map (bin_label age_bins age_labels) (map Age (rows (h ! df))))"
  from assms(1,3) have "h' = h[df := ?g] @ [boolean_index ?g (\<lambda>r. Mode_of_Transport r = ''EV'')]"
    by (auto simp: ev_age_distribution_checkpoint_def cut_age_bins setitem_Age_Group_def
        getitem_def new_object_def Let_def)
  with assms(1) have "h' ! df = ?g"
    by (simp add: nth_append)
  with assms(2) show "columns (h' ! df) = columns (h ! df) @ [''Age_Group'']"
    by (simp add: assign_Age_Group_def)
  then show "h' ! df \<noteq> h ! df"
    by auto
qed

text \<open>
  The grouped mean of line 490 under \<^verbatim>\<open>observed=False\<close>. For an empty filtered table
  the result is not empty: it has the seven labels, each with NaN. For a table with one
  row, aged 30, the six labels without a row are listed with NaN.
\<close>

theorem recycling_by_age_nan_counterexample:
  "recycling_by_age False [empty_df] 0
     \<noteq> Inr ([], [empty_df, \<lparr>columns = base_columns @ [''Age_Group''], rows = []\<rparr>])
   \<and> recycling_by_age False [empty_df] 0
     = Inr ([(''18-24'', None), (''25-34'', None), (''35-44'', None), (''45-54'', None),
             (''55-64'', None), (''65-74'', None), (''75+'', None)],
            [empty_df, \<lparr>columns = base_columns @ [''Age_Group''], rows = []\<rparr>])
   \<and> recycling_by_age False [one_row_df] 0
     = Inr ([(''18-24'', None), (''25-34'', Some 65), (''35-44'', None), (''45-54'', None),
             (''55-64'', None), (''65-74'', None), (''75+'', None)],
            [one_row_df,
             \<lparr>columns = base_columns @ [''Age_Group''],
              rows = [(mk_citizen 30 ''Male'' ''Uptown'' ''EV'')\<lparr>Age_Group := Some ''25-34''\<rparr>]\<rparr>])"
proof -
  have "''Age_Group'' \<notin> set (columns empty_df)"
    by (simp add: empty_df_def base_columns_def)
  then have e: "recycling_by_age False [empty_df] 0
     = Inr ([(''18-24'', None), (''25-34'', None), (''35-44'', None), (''45-54'', None),
             (''55-64'', None), (''65-74'', None), (''75+'', None)],
            [empty_df, \<lparr>columns = base_columns @ [''Age_Group''], rows = []\<rparr>])"
    by (simp add: recycling_by_age_def df_copy_def new_object_def setitem_Age_Group_def
        cut_literal_bins Let_def groupby_categorical_mean_def mean_def assign_Age_Group_def)
      (simp add: empty_df_def)
  have "''Age_Group'' \<notin> set (columns one_row_df)"
    by (simp add: one_row_df_def base_columns_def)
  then have "recycling_by_age False [one_row_df] 0
     = Inr ([(''18-24'', None), (''25-34'', Some 65), (''35-44'', None), (''45-54'', None),
             (''55-64'', None), (''65-74'', None), (''75+'', None)],
            [one_row_df,
             \<lparr>columns = base_columns @ [''Age_Group''],
              rows = [(mk_citizen 30 ''Male'' ''Uptown'' ''EV'')\<lparr>Age_Group := Some ''25-34''\<rparr>]\<rparr>])"
    by (simp add: recycling_by_age_def df_copy_def new_object_def setitem_Age_Group_def
        cut_literal_bins Let_def groupby_categorical_mean_def mean_def assign_Age_Group_def
        age_group_intervals)
      (simp add: one_row_df_def age_group_intervals)
  with e show ?thesis by simp
qed

section \<open>Loading and mock data\<close>

lemma toy_rng_contract: "np_contract toy_rng"
proof -
  have "low \<le> low + j mod (high - low) \<and> low + j mod (high - low) < high"
    if "low < high" for low high j :: int
  proof -
    from that have pos: "0 < high - low" by simp
    show ?thesis
      using pos_mod_sign [OF pos, of j] pos_mod_bound [OF pos, of j] by linarith
  qed
  moreover have "a ! (k mod length a) \<in> set a" if "a \<noteq> []" for a :: "string list" and k :: nat
    using that by simp
  ultimately show ?thesis
    unfolding np_contract_def toy_rng_def by (simp add: image_subset_iff)
qed

lemma clip_nth:
  "i < length xs \<Longrightarrow> clip a_min a_max xs ! i = min (max (xs ! i) a_min) a_max"
  by (simp add: clip_def)

lemma length_clip: "length (clip a_min a_max xs) = length xs"
  by (simp add: clip_def)

lemma generate_mock_data_seeded:
  "generate_mock_data rng n s = generate_mock_data rng n (np_seed rng 42)"
  by (simp add: generate_mock_data_def)

lemma generate_mock_data_rows:
  assumes "np_contract rng"
  shows "\<exists>age gender district mode carbon steps sleep social public recycling digital s'.
           generate_mock_data rng n s =
             (Inr \<lparr>columns = base_columns,
                   rows = map (\<lambda>i. \<lparr>Age = age ! i, Gender = gender ! i, District = district ! i,
                                     Mode_of_Transport = mode ! i,
                                     Carbon_Footprint_kgCO2 = min (max (carbon ! i) 0) 30,
                                     Steps_Walked = steps ! i,
                                     Sleep_Hours = min (max (sleep ! i) 4) 10,
                                     Social_Media_Hours = min (max (social ! i) 0) 10,
                                     Public_Transport_Usage = public ! i,
                                     Recycling_Rate = min (max (recycling ! i) 0) 100,
                                     Digital_Service_Usage = digital ! i,
                                     Age_Group = None\<rparr>) [0..<n]\<rparr>, s')
           \<and> length age = n \<and> (\<forall>x \<in> set age. 18 \<le> x \<and> x < 80)
           \<and> length steps = n \<and> (\<forall>x \<in> set steps. 1000 \<le> x \<and> x < 15000)
           \<and> length digital = n \<and> (\<forall>x \<in> set digital. 1 \<le> x \<and> x < 10)"
proof -
  have ri: "length (fst (np_randint rng low high n s)) = n \<and>
            (\<forall>x \<in> set (fst (np_randint rng low high n s)). low \<le> x \<and> x < high)"
    if "low < high" for low high s
    using assms that unfolding np_contract_def by blast
  have ch: "length (fst (np_choice rng a n s)) = n" if "a \<noteq> []" for a s
    using assms that unfolding np_contract_def by blast
  have no: "length (fst (np_normal rng loc scale n s)) = n" for loc scale s
    using assms unfolding np_contract_def by blast
  have ex: "length (fst (np_exponential rng scale n s)) = n" for scale s
    using assms unfolding np_contract_def by blast
  obtain age s2 where age: "np_randint rng 18 80 n (np_seed rng 42) = (age, s2)"
    by (cases "np_randint rng 18 80 n (np_seed rng 42)")
  obtain gender s3 where gender:
    "np_choice rng [''Male'', ''Female'', ''Non-binary''] n s2 = (gender, s3)"
    by (cases "np_choice rng [''Male'', ''Female'', ''Non-binary''] n s2")
  obtain district s4 where district:
    "np_choice rng [''Downtown'', ''Uptown'', ''Westside'', ''Eastside'', ''Suburbs'', ''Industrial'']
       n s3 = (district, s4)"
    by (cases "np_choice rng
        [''Downtown'', ''Uptown'', ''Westside'', ''Eastside'', ''Suburbs'', ''Industrial''] n s3")
  obtain mode s5 where mode:
    "np_choice rng [''Bus'', ''Car'', ''Bicycle'', ''Walk'', ''EV'', ''Train'', ''Motorcycle'']
       n s4 = (mode, s5)"
    by (cases "np_choice rng
        [''Bus'', ''Car'', ''Bicycle'', ''Walk'', ''EV'', ''Train'', ''Motorcycle''] n s4")
  obtain carbon s6 where carbon: "np_normal rng 10 5 n s5 = (carbon, s6)"
    by (cases "np_normal rng 10 5 n s5")
  obtain steps s7 where steps: "np_randint rng 1000 15000 n s6 = (steps, s7)"
    by (cases "np_randint rng 1000 15000 n s6")
  obtain sleep s8 where sleep: "np_normal rng 7 1.5 n s7 = (sleep, s8)"
    by (cases "np_normal rng 7 1.5 n s7")
  obtain social s9 where social: "np_exponential rng 2 n s8 = (social, s9)"
    by (cases "np_exponential rng 2 n s8")
  obtain public s10 where public:
    "np_choice rng [''Daily'', ''Weekly'', ''Monthly'', ''Rarely'', ''Never''] n s9 = (public, s10)"
    by (cases "np_choice rng [''Daily'', ''Weekly'', ''Monthly'', ''Rarely'', ''Never''] n s9")
  obtain recycling s11 where recycling: "np_normal rng 65 20 n s10 = (recycling, s11)"
    by (cases "np_normal rng 65 20 n s10")
  obtain digital s12 where digital: "np_randint rng 1 10 n s11 = (digital, s12)"
    by (cases "np_randint rng 1 10 n s11")
  have l_age: "length age = n" and b_age: "\<forall>x \<in> set age. 18 \<le> x \<and> x < 80"
    using ri [of 18 80 "np_seed rng 42"] age by simp_all
  have l_steps: "length steps = n" and b_steps: "\<forall>x \<in> set steps. 1000 \<le> x \<and> x < 15000"
    using ri [of 1000 15000 s6] steps by simp_all
  have l_digital: "length digital = n" and b_digital: "\<forall>x \<in> set digital. 1 \<le> x \<and> x < 10"
    using ri [of 1 10 s11] digital by simp_all
  have l_gender: "length gender = n"
    using ch [of "[''Male'', ''Female'', ''Non-binary'']" s2] gender by simp
  have l_district: "length district = n"
    using ch [of "[''Downtown'', ''Uptown'', ''Westside'', ''Eastside'', ''Suburbs'', ''Industrial'']" s3]
      district by simp
  have l_mode: "length mode = n"
    using ch [of "[''Bus'', ''Car'', ''Bicycle'', ''Walk'', ''EV'', ''Train'', ''Motorcycle'']" s4]
      mode by simp
  have l_public: "length public = n"
    using ch [of "[''Daily'', ''Weekly'', ''Monthly'', ''Rarely'', ''Never'']" s9] public by simp
  have l_carbon: "length carbon = n" using no [of 10 5 s5] carbon by simp
  have l_sleep: "length sleep = n" using no [of 7 "1.5" s7] sleep by simp
  have l_recycling: "length recycling = n" using no [of 65 20 s10] recycling by simp
  have l_social: "length social = n" using ex [of 2 s8] social by simp
  have g: "generate_mock_data rng n s =
             (DataFrame age gender district mode (clip 0 30 carbon) steps (clip 4 10 sleep)
                (clip 0 10 social) public (clip 0 100 recycling) digital, s12)"
    unfolding generate_mock_data_def Let_def age gender district mode carbon steps sleep social
      public recycling digital prod.case
    by (rule refl)
  have d: "DataFrame age gender district mode (clip 0 30 carbon) steps (clip 4 10 sleep)
                (clip 0 10 social) public (clip 0 100 recycling) digital =
           Inr \<lparr>columns = base_columns,
                   rows = map (\<lambda>i. \<lparr>Age = age ! i, Gender = gender ! i, District = district ! i,
                                     Mode_of_Transport = mode ! i,
                                     Carbon_Footprint_kgCO2 = min (max (carbon ! i) 0) 30,
                                     Steps_Walked = steps ! i,
                                     Sleep_Hours = min (max (sleep ! i) 4) 10,
                                     Social_Media_Hours = min (max (social ! i) 0) 10,
                                     Public_Transport_Usage = public ! i,
                                     Recycling_Rate = min (max (recycling ! i) 0) 100,
                                     Digital_Service_Usage = digital ! i,
                                     Age_Group = None\<rparr>) [0..<n]\<rparr>"
    unfolding DataFrame_def Let_def
    using l_age l_gender l_district l_mode l_carbon l_steps l_sleep l_social l_public
      l_recycling l_digital
    by (simp add: length_clip clip_nth)
  show ?thesis
    unfolding g d
    using l_age b_age l_steps b_steps l_digital b_digital by blast
qed

text \<open>
  Claim C7. \<open>generate_mock_data\<close> seeds the generator before it draws, so its output
  does not depend on the generator's state at the call: any two calls with the same
  \<open>n_samples\<close>, in particular two calls of \<open>generate_mock_data 300\<close> one after the
  other, return the same table, row by row and column by column.
\<close>

theorem generate_mock_data_deterministic:
  "generate_mock_data rng n s1 = generate_mock_data rng n s2
   \<and> fst (generate_mock_data rng 300 (snd (generate_mock_data rng 300 s)))
       = fst (generate_mock_data rng 300 s)"
proof
  show "generate_mock_data rng n s1 = generate_mock_data rng n s2"
    using generate_mock_data_seeded [of rng n s1] generate_mock_data_seeded [of rng n s2]
    by simp
  show "fst (generate_mock_data rng 300 (snd (generate_mock_data rng 300 s)))
       = fst (generate_mock_data rng 300 s)"
    using generate_mock_data_seeded [of rng 300 "snd (generate_mock_data rng 300 s)"]
      generate_mock_data_seeded [of rng 300 s]
    by simp
qed

theorem generate_mock_data_deterministic_witness:
  "generate_mock_data toy_rng 300 0 = generate_mock_data toy_rng 300 7"
  using generate_mock_data_deterministic [of toy_rng 300 0 7] by (rule conjunct1)

text \<open>
  Claim C8. With samplers that meet numpy's contract, \<open>generate_mock_data n\<close> returns a
  table of \<open>n\<close> rows, and in every row \<open>Age\<close> is in \<open>[18, 80)\<close>, \<open>Steps_Walked\<close> in
  \<open>[1000, 15000)\<close>, \<open>Digital_Service_Usage\<close> in 1 to 10, \<open>Carbon_Footprint_kgCO2\<close> in
  \<open>[0, 30]\<close>, \<open>Sleep_Hours\<close> in \<open>[4, 10]\<close>, \<open>Social_Media_Hours\<close> in \<open>[0, 10]\<close> and
  \<open>Recycling_Rate\<close> in \<open>[0, 100]\<close>.
\<close>

theorem generate_mock_data_domains:
  assumes "np_contract rng"
  shows "\<exists>df s'. generate_mock_data rng n s = (Inr df, s') \<and> length (rows df) = n
           \<and> (\<forall>r \<in> set (rows df).
                 18 \<le> Age r \<and> Age r < 80
               \<and> 1000 \<le> Steps_Walked r \<and> Steps_Walked r < 15000
               \<and> 1 \<le> Digital_Service_Usage r \<and> Digital_Service_Usage r \<le> 10
               \<and> 0 \<le> Carbon_Footprint_kgCO2 r \<and> Carbon_Footprint_kgCO2 r \<le> 30
               \<and> 4 \<le> Sleep_Hours r \<and> Sleep_Hours r \<le> 10
               \<and> 0 \<le> Social_Media_Hours r \<and> Social_Media_Hours r \<le> 10
               \<and> 0 \<le> Recycling_Rate r \<and> Recycling_Rate r \<le> 100)"
proof -
  from generate_mock_data_rows [OF assms, of n s]
  obtain age gender district mode carbon steps sleep social public recycling digital s' where
    g: "generate_mock_data rng n s =
             (Inr \<lparr>columns = base_columns,
                   rows = map (\<lambda>i. \<lparr>Age = age ! i, Gender = gender ! i, District = district ! i,
                                     Mode_of_Transport = mode ! i,
                                     Carbon_Footprint_kgCO2 = min (max (carbon ! i) 0) 30,
                                     Steps_Walked = steps ! i,
                                     Sleep_Hours = min (max (sleep ! i) 4) 10,
                                     Social_Media_Hours = min (max (social ! i) 0) 10,
                                     Public_Transport_Usage = public ! i,
                                     Recycling_Rate = min (max (recycling ! i) 0) 100,
                                     Digital_Service_Usage = digital ! i,
                                     Age_Group = None\<rparr>) [0..<n]\<rparr>, s')"
    and la: "length age = n" and ba: "\<forall>x \<in> set age. 18 \<le> x \<and> x < 80"
    and ls: "length steps = n" and bs: "\<forall>x \<in> set steps. 1000 \<le> x \<and> x < 15000"
    and ld: "length digital = n" and bd: "\<forall>x \<in> set digital. 1 \<le> x \<and> x < 10"
    by (elim exE conjE)
  have age: "18 \<le> age ! i \<and> age ! i < 80" if "i < n" for i
    using that la ba nth_mem [of i age] by blast
  have steps: "1000 \<le> steps ! i \<and> steps ! i < 15000" if "i < n" for i
    using that ls bs nth_mem [of i steps] by blast
  have digital: "1 \<le> digital ! i \<and> digital ! i \<le> 10" if "i < n" for i
    using that ld bd nth_mem [of i digital] by fastforce
  show ?thesis
    unfolding g using age steps digital by simp
qed

lemma generate_mock_data_digital_below_10:
  assumes "np_contract rng" and "generate_mock_data rng n s = (Inr df, s')"
    and "r \<in> set (rows df)"
  shows "Digital_Service_Usage r < 10"
proof -
  from generate_mock_data_rows [OF assms(1), of n s]
  obtain age gender district mode carbon steps sleep social public recycling digital s'' where
    g: "generate_mock_data rng n s =
             (Inr \<lparr>columns = base_columns,
                   rows = map (\<lambda>i. \<lparr>Age = age ! i, Gender = gender ! i, District = district ! i,
                                     Mode_of_Transport = mode ! i,
                                     Carbon_Footprint_kgCO2 = min (max (carbon ! i) 0) 30,
                                     Steps_Walked = steps ! i,
                                     Sleep_Hours = min (max (sleep ! i) 4) 10,
                                     Social_Media_Hours = min (max (social ! i) 0) 10,
                                     Public_Transport_Usage = public ! i,
                                     Recycling_Rate = min (max (recycling ! i) 0) 100,
                                     Digital_Service_Usage = digital ! i,
                                     Age_Group = None\<rparr>) [0..<n]\<rparr>, s'')"
    and ld: "length digital = n" and bd: "\<forall>x \<in> set digital. 1 \<le> x \<and> x < 10"
    by (elim exE conjE)
  from assms(2,3) g obtain i where "i < n" "Digital_Service_Usage r = digital ! i"
    by auto
  then show ?thesis
    using ld bd nth_mem [of i digital] by auto
qed

theorem generate_mock_data_domains_witness:
  "np_contract toy_rng
   \<and> (\<exists>df s'. generate_mock_data toy_rng 3 0 = (Inr df, s') \<and> length (rows df) = 3
           \<and> (\<forall>r \<in> set (rows df).
                 18 \<le> Age r \<and> Age r < 80
               \<and> 1000 \<le> Steps_Walked r \<and> Steps_Walked r < 15000
               \<and> 1 \<le> Digital_Service_Usage r \<and> Digital_Service_Usage r \<le> 10
               \<and> 0 \<le> Carbon_Footprint_kgCO2 r \<and> Carbon_Footprint_kgCO2 r \<le> 30
               \<and> 4 \<le> Sleep_Hours r \<and> Sleep_Hours r \<le> 10
               \<and> 0 \<le> Social_Media_Hours r \<and> Social_Media_Hours r \<le> 10
               \<and> 0 \<le> Recycling_Rate r \<and> Recycling_Rate r \<le> 100))"
  using generate_mock_data_domains [OF toy_rng_contract, of 3 0] toy_rng_contract
  by (intro conjI)

text \<open>
  Claim C6. When the file is read, \<open>load_data\<close> returns the table that was read, shows
  nothing and draws nothing. When the read fails with \<^verbatim>\<open>FileNotFoundError\<close>, it shows
  the mock-data notice once and returns what \<open>generate_mock_data 300\<close> returns, which is
  a table and not an error when the samplers meet numpy's contract.
\<close>

theorem load_data_fallback:
  "load_data (Inr d) rng s notices = (Inr d, s, notices)
   \<and> load_data (Inl FileNotFoundError) rng s notices
       = (fst (generate_mock_data rng 300 s), snd (generate_mock_data rng 300 s),
          notices @ [mock_notice])
   \<and> (np_contract rng \<longrightarrow>
        (\<exists>df s'. load_data (Inl FileNotFoundError) rng s notices
                   = (Inr df, s', notices @ [mock_notice])
                 \<and> generate_mock_data rng 300 s = (Inr df, s') \<and> length (rows df) = 300))"
proof (intro conjI impI)
  show "load_data (Inr d) rng s notices = (Inr d, s, notices)"
    by (simp add: load_data_def)
  show l: "load_data (Inl FileNotFoundError) rng s notices
       = (fst (generate_mock_data rng 300 s), snd (generate_mock_data rng 300 s),
          notices @ [mock_notice])"
    by (simp add: load_data_def Let_def case_prod_beta)
  assume "np_contract rng"
  from generate_mock_data_rows [OF this, of 300 s]
  obtain df s' where "generate_mock_data rng 300 s = (Inr df, s')" "length (rows df) = 300"
    by (elim exE conjE) simp
  then show "\<exists>df s'. load_data (Inl FileNotFoundError) rng s notices
                   = (Inr df, s', notices @ [mock_notice])
                 \<and> generate_mock_data rng 300 s = (Inr df, s') \<and> length (rows df) = 300"
    unfolding l by simp
qed

lemma load_data_other_error:
  "e \<noteq> FileNotFoundError \<Longrightarrow> load_data (Inl e) rng s notices = (Inl e, s, notices)"
  by (simp add: load_data_def)

theorem load_data_fallback_witness:
  "np_contract toy_rng
   \<and> load_data (Inr small_df) toy_rng 0 [] = (Inr small_df, 0, [])
   \<and> (\<exists>df s'. load_data (Inl FileNotFoundError) toy_rng 0 [] = (Inr df, s', [mock_notice])
           \<and> generate_mock_data toy_rng 300 0 = (Inr df, s') \<and> length (rows df) = 300)"
proof -
  note l = load_data_fallback [of small_df toy_rng 0 "[]"]
  have 1: "load_data (Inr small_df) toy_rng 0 [] = (Inr small_df, 0, [])"
    using l by (rule conjunct1)
  have 2: "\<exists>df s'. load_data (Inl FileNotFoundError) toy_rng 0 [] = (Inr df, s', [mock_notice])
           \<and> generate_mock_data toy_rng 300 0 = (Inr df, s') \<and> length (rows df) = 300"
    using l [THEN conjunct2, THEN conjunct2, rule_format, OF toy_rng_contract] by simp
  from toy_rng_contract 1 2 show ?thesis by (intro conjI)
qed


end
